theory Spec2Isabelle
  imports Complex_Main "HOL-Library.Monad_Syntax"
begin

section \<open>JavaScript numbers\<close>

text \<open>
  The script \<^verbatim>\<open>optimization-scripts/performance-check.js\<close> computes with JavaScript
  Numbers: IEEE 754 binary64 values. A finite Number is represented by the rational it
  denotes; the two infinities and NaN are separate values. The sign of zero is not
  represented: no operation of the script distinguishes \<^verbatim>\<open>-0\<close> from \<^verbatim>\<open>0\<close>.

  The script computes with a field of the report only under ToNumber (multiplication,
  relational comparison, \<^verbatim>\<open>Math.round\<close>), so a field is given by the Number it converts
  to: \<^verbatim>\<open>undefined\<close> (a field that is absent) is \<open>NaN\<close>, \<^verbatim>\<open>null\<close> is 0. Where the script
  stores a field as it is (the metrics in the history entry and in the HTML document),
  the model stores that Number.
\<close>

datatype jsnum = NaN | NInf | Fin rat | PInf

definition pow2 :: "int \<Rightarrow> rat" where
  "pow2 k = (if 0 \<le> k then 2 ^ nat k else 1 / 2 ^ nat (- k))"

text \<open>The number of binary digits of a positive integer.\<close>

function bits :: "int \<Rightarrow> int" where
  "bits n = (if n \<le> 0 then 0 else 1 + bits (n div 2))"
  by pat_completeness auto
termination
  by (relation "measure nat") auto

declare bits.simps [simp del]

text \<open>For \<open>0 < x\<close>, \<open>ilog2 x\<close> is the exponent \<open>e\<close> with \<open>2^e \<le> x < 2^(e+1)\<close>.\<close>

definition ilog2 :: "rat \<Rightarrow> int" where
  "ilog2 x =
     (let (p, q) = quotient_of x;
          d = bits p - bits q
      in if pow2 d \<le> x then d else d - 1)"

definition round_half_even :: "rat \<Rightarrow> int" where
  "round_half_even x =
     (let f = \<lfloor>x\<rfloor>; r = x - of_int f
      in if r < 1 / 2 then f
         else if 1 / 2 < r then f + 1
         else if even f then f else f + 1)"

text \<open>
  Rounding of an exact result to binary64 (roundTiesToEven): 53 significant bits, least
  exponent \<open>-1022\<close> (below it the spacing of the subnormal numbers), overflow to an
  infinity from \<open>2^1024\<close> on.
\<close>

definition binary64 :: "rat \<Rightarrow> jsnum" where
  "binary64 x =
     (if x = 0 then Fin 0
      else let a = \<bar>x\<bar>;
               e = max (ilog2 a) (- 1022);
               ulp = pow2 (e - 52);
               r = of_int (round_half_even (a / ulp)) * ulp
           in if pow2 1024 \<le> r then (if 0 < x then PInf else NInf)
              else Fin (if 0 < x then r else - r))"

fun js_neg :: "jsnum \<Rightarrow> jsnum" where
  "js_neg NaN = NaN"
| "js_neg NInf = PInf"
| "js_neg (Fin a) = Fin (- a)"
| "js_neg PInf = NInf"

text \<open>The operator \<^verbatim>\<open>*\<close> on Numbers.\<close>

fun js_times :: "jsnum \<Rightarrow> jsnum \<Rightarrow> jsnum" where
  "js_times NaN y = NaN"
| "js_times x NaN = NaN"
| "js_times (Fin a) (Fin b) = binary64 (a * b)"
| "js_times (Fin a) y = (if a = 0 then NaN else if 0 < a then y else js_neg y)"
| "js_times x (Fin b) = (if b = 0 then NaN else if 0 < b then x else js_neg x)"
| "js_times x y = (if x = y then PInf else NInf)"

text \<open>
  The relational operators. \<^verbatim>\<open>a < b\<close> is false when either side is NaN; \<^verbatim>\<open>a <= b\<close> is
  "not \<^verbatim>\<open>b < a\<close>" unless either side is NaN, and false then; likewise \<^verbatim>\<open>>\<close> and \<^verbatim>\<open>>=\<close>.
\<close>

fun js_lt :: "jsnum \<Rightarrow> jsnum \<Rightarrow> bool" where
  "js_lt NaN y = False"
| "js_lt x NaN = False"
| "js_lt (Fin a) (Fin b) = (a < b)"
| "js_lt PInf y = False"
| "js_lt x NInf = False"
| "js_lt x y = True"

definition js_gt :: "jsnum \<Rightarrow> jsnum \<Rightarrow> bool" where
  "js_gt x y = js_lt y x"

definition js_le :: "jsnum \<Rightarrow> jsnum \<Rightarrow> bool" where
  "js_le x y = (x \<noteq> NaN \<and> y \<noteq> NaN \<and> \<not> js_lt y x)"

definition js_ge :: "jsnum \<Rightarrow> jsnum \<Rightarrow> bool" where
  "js_ge x y = (x \<noteq> NaN \<and> y \<noteq> NaN \<and> \<not> js_lt x y)"

text \<open>
  \<^verbatim>\<open>Math.round\<close>: the integer closest to the argument, the one towards \<open>+\<infinity>\<close> of two
  equally close ones; NaN and the infinities are returned as they are.
\<close>

fun Math_round :: "jsnum \<Rightarrow> jsnum" where
  "Math_round (Fin a) = Fin (of_int \<lfloor>a + 1 / 2\<rfloor>)"
| "Math_round x = x"

text \<open>A decimal literal of the report or of the script denotes the nearest binary64.\<close>

definition literal :: "rat \<Rightarrow> jsnum" where
  "literal x = binary64 x"

text \<open>
  What a lookup \<^verbatim>\<open>THRESHOLDS[name]\<close> can give: \<^verbatim>\<open>undefined\<close>, a Number, or the member
  of that name which the table, as every object, inherits from \<^verbatim>\<open>Object.prototype\<close> (a
  function, or for \<^verbatim>\<open>__proto__\<close> the prototype object itself).
\<close>

datatype jsval = Undefined | Number jsnum | Inherited string

text \<open>
  ToNumber, as the relational operators apply it to a threshold: \<^verbatim>\<open>undefined\<close> converts
  to NaN, and so does a function or the prototype object (through the string it converts
  to, which is no numeric literal).
\<close>

fun toNumber :: "jsval \<Rightarrow> jsnum" where
  "toNumber Undefined = NaN"
| "toNumber (Number x) = x"
| "toNumber (Inherited name) = NaN"

text \<open>\<^verbatim>\<open>!threshold\<close>: \<^verbatim>\<open>undefined\<close>, 0 and NaN are falsy; functions and objects are not.\<close>

fun falsy :: "jsval \<Rightarrow> bool" where
  "falsy Undefined = True"
| "falsy (Number NaN) = True"
| "falsy (Number (Fin a)) = (a = 0)"
| "falsy (Number x) = False"
| "falsy (Inherited name) = False"

section \<open>The threshold table and the evaluation records\<close>

text \<open>
  The names of the members of \<^verbatim>\<open>Object.prototype\<close>, which a lookup in an object literal
  finds when the object has no key of that name.
\<close>

definition Object_prototype :: "string list" where
  "Object_prototype =
     [''constructor'', ''__defineGetter__'', ''__defineSetter__'', ''hasOwnProperty'',
      ''__lookupGetter__'', ''__lookupSetter__'', ''isPrototypeOf'', ''propertyIsEnumerable'',
      ''toString'', ''valueOf'', ''__proto__'', ''toLocaleString'']"

text \<open>
  \<^verbatim>\<open>THRESHOLDS[name]\<close>: the value of the key in the table (lines 7 to 18), else the
  inherited member of that name, else \<^verbatim>\<open>undefined\<close>.
\<close>

definition THRESHOLDS :: "string \<Rightarrow> jsval" where
  "THRESHOLDS name =
     (case map_of
             [(''performance'', Fin 90),
              (''accessibility'', Fin 90),
              (''best-practices'', Fin 90),
              (''seo'', Fin 90),
              (''first-contentful-paint'', Fin 1800),
              (''largest-contentful-paint'', Fin 2500),
              (''first-input-delay'', Fin 100),
              (''cumulative-layout-shift'', literal (1 / 10)),
              (''speed-index'', Fin 3000),
              (''interactive'', Fin 3500)] name of
        Some t \<Rightarrow> Number t
      | None \<Rightarrow> if name \<in> set Object_prototype then Inherited name else Undefined)"

text \<open>
  One element of \<^verbatim>\<open>results\<close>. The fields \<^verbatim>\<open>type\<close> and \<^verbatim>\<open>value\<close> of the script are
  \<open>type'\<close> and \<open>value'\<close> here.
\<close>

record result =
  type' :: string
  category :: string  value' :: jsnum
  threshold :: jsval
  status :: string

text \<open>
  The console. Every call of \<^verbatim>\<open>console.log\<close>, \<^verbatim>\<open>console.warn\<close> and \<^verbatim>\<open>console.error\<close>
  appends one line; a line is the stream it goes to and what it says, with the data the
  script interpolates into it (the decoration and the number formatting are left out).
\<close>

datatype exn = SyntaxError | TypeError | IOError

datatype stream = Log | Warn | Error

datatype message =
    Analyzing
  | ReportNotFound
  | ScoresHeader
  | Rule
  | ScoreLine bool string jsnum jsval
  | VitalsHeader
  | MetricLine bool string jsnum string jsval
  | HistoryUpdated
  | HistoryNotSaved exn
  | BuildDirNotFound
  | BundleHeader
  | BundleFile bool string int
  | BundleTotal bool int
  | BundleNotAnalyzed
  | DoubleRule
  | AllPassed
  | ChecksFailed
  | SuggestionsHeader
  | Suggestion nat
  | ReportGenerated
  | ErrorAnalyzing exn

type_synonym line = "stream \<times> message"

text \<open>
  The variables \<^verbatim>\<open>passed\<close> and \<^verbatim>\<open>results\<close> of \<^verbatim>\<open>checkPerformance\<close>, which the two
  \<^verbatim>\<open>forEach\<close> callbacks update, and the lines the callbacks print.
\<close>

record checks =
  passed :: bool
  results :: "result list"
  printed :: "line list"

definition print :: "message \<Rightarrow> checks \<Rightarrow> checks" where
  "print t st = st\<lparr>printed := printed st @ [(Log, t)]\<rparr>"

definition push :: "result \<Rightarrow> checks \<Rightarrow> checks" where
  "push r st = st\<lparr>results := results st @ [r]\<rparr>"

section \<open>The two evaluation loops\<close>

text \<open>The callback of \<^verbatim>\<open>Object.entries(scores).forEach\<close> (lines 61 to 86).\<close>

definition score_step :: "checks \<Rightarrow> string \<times> jsnum \<Rightarrow> checks" where
  "score_step st entry =
     (case entry of (c, score) \<Rightarrow>
        let t = THRESHOLDS c;
            st1 = print (ScoreLine (js_ge score (toNumber t)) c score t) st
        in if js_lt score (toNumber t)
           then push \<lparr>type' = ''score'', category = c, value' = score,
                      threshold = t, status = ''failed''\<rparr> (st1\<lparr>passed := False\<rparr>)
           else push \<lparr>type' = ''score'', category = c, value' = score,
                      threshold = t, status = ''passed''\<rparr> st1)"

text \<open>\<^verbatim>\<open>metric.includes(sub)\<close>.\<close>

fun includes_str :: "string \<Rightarrow> string \<Rightarrow> bool" where
  "includes_str [] sub = (sub = [])"
| "includes_str (x # xs) sub = (take (length sub) (x # xs) = sub \<or> includes_str xs sub)"

text \<open>The callback of \<^verbatim>\<open>Object.entries(metrics).forEach\<close> (lines 91 to 119).\<close>

definition metric_step :: "checks \<Rightarrow> string \<times> jsnum \<Rightarrow> checks" where
  "metric_step st entry =
     (case entry of (metric, v) \<Rightarrow>
        let t = THRESHOLDS metric
        in if falsy t then st
           else
             let unit = (if includes_str metric ''shift'' then [] else ''ms'');
                 st1 = print (MetricLine (js_le v (toNumber t)) metric (Math_round v) unit t) st
             in if js_gt v (toNumber t)
                then push \<lparr>type' = ''metric'', category = metric, value' = Math_round v,
                           threshold = t, status = ''failed''\<rparr> (st1\<lparr>passed := False\<rparr>)
                else push \<lparr>type' = ''metric'', category = metric, value' = Math_round v,
                           threshold = t, status = ''passed''\<rparr> st1)"

text \<open>
  Lines 55 to 119: both loops, from \<^verbatim>\<open>passed = true\<close> and \<^verbatim>\<open>results = []\<close>, over the
  entries of \<^verbatim>\<open>scores\<close> and of \<^verbatim>\<open>metrics\<close> in insertion order.
\<close>

definition evaluate :: "(string \<times> jsnum) list \<Rightarrow> (string \<times> jsnum) list \<Rightarrow> checks" where
  "evaluate scs mts =
     (let st0 = \<lparr>passed = True, results = [], printed = []\<rparr>;
          st1 = foldl score_step (print Rule (print ScoresHeader st0)) scs
      in foldl metric_step (print Rule (print VitalsHeader st1)) mts)"

section \<open>The report and what is extracted from it\<close>

text \<open>
  The object \<^verbatim>\<open>lhr\<close> of the parsed report: for the name of a category the \<^verbatim>\<open>score\<close> of
  \<^verbatim>\<open>lhr.categories[name]\<close>, for the id of an audit the \<^verbatim>\<open>numericValue\<close> of
  \<^verbatim>\<open>lhr.audits[id]\<close>. \<open>None\<close> is a category or an audit that is absent (also when
  \<^verbatim>\<open>lhr\<close>, \<^verbatim>\<open>categories\<close> or \<^verbatim>\<open>audits\<close> is): reading a property of it throws a TypeError.
\<close>

record lhr =
  categories :: "string \<Rightarrow> jsnum option"
  audits :: "string \<Rightarrow> jsnum option"

text \<open>Lines 38 to 43.\<close>

definition extract_scores :: "lhr \<Rightarrow> (string \<times> jsnum) list option" where
  "extract_scores l =
     do {
       p \<leftarrow> categories l ''performance'';
       a \<leftarrow> categories l ''accessibility'';
       b \<leftarrow> categories l ''best-practices'';
       s \<leftarrow> categories l ''seo'';
       Some [(''performance'', Math_round (js_times p (Fin 100))),
             (''accessibility'', Math_round (js_times a (Fin 100))),
             (''best-practices'', Math_round (js_times b (Fin 100))),
             (''seo'', Math_round (js_times s (Fin 100)))]
     }"

text \<open>Lines 45 to 52.\<close>

definition extract_metrics :: "lhr \<Rightarrow> (string \<times> jsnum) list option" where
  "extract_metrics l =
     do {
       fcp \<leftarrow> audits l ''first-contentful-paint'';
       lcp \<leftarrow> audits l ''largest-contentful-paint'';
       fid \<leftarrow> audits l ''max-potential-fid'';
       cls \<leftarrow> audits l ''cumulative-layout-shift'';
       si \<leftarrow> audits l ''speed-index'';
       tti \<leftarrow> audits l ''interactive'';
       Some [(''first-contentful-paint'', fcp),
             (''largest-contentful-paint'', lcp),
             (''first-input-delay'', fid),
             (''cumulative-layout-shift'', cls),
             (''speed-index'', si),
             (''interactive'', tti)]
     }"

section \<open>Files, environment and console\<close>

text \<open>
  What \<^verbatim>\<open>JSON.parse(fs.readFileSync(LIGHTHOUSE_REPORT, 'utf8'))\<close> gives: an exception
  (the file cannot be read or is not JSON) or the report.
\<close>

datatype report_doc = Unparsable | Report lhr

text \<open>One element of the history, \<^verbatim>\<open>historyData\<close> (lines 198 to 204).\<close>

record entry =
  timestamp :: string
  commit :: string
  branch :: string
  scores :: "(string \<times> jsnum) list"
  metrics :: "(string \<times> jsnum) list"

text \<open>
  The document in the history file: not JSON (\<^verbatim>\<open>JSON.parse\<close> throws a SyntaxError), JSON
  that is no array (\<^verbatim>\<open>history.push\<close> throws a TypeError), or an array.
\<close>

datatype history_doc = Malformed | NonArray | Entries "entry list"

text \<open>The data \<^verbatim>\<open>generatePerformanceReport\<close> embeds in the HTML document.\<close>

record page =
  page_results :: "result list"
  page_scores :: "(string \<times> jsnum) list"
  page_metrics :: "(string \<times> jsnum) list"

text \<open>
  The directory \<^verbatim>\<open>buildDir\<close>, \<^verbatim>\<open>./dist\<close>: absent, not readable, or its files (the paths
  \<^verbatim>\<open>readdirSync\<close> lists, with their sizes).
\<close>

datatype build = NoBuildDir | Unreadable | Files "(string \<times> int) list"

text \<open>
  Everything outside the script that it reads or writes. \<open>None\<close> is a file that does not
  exist or an environment variable that is not set. \<open>log_write_fails\<close> and
  \<open>report_write_fails\<close> say whether writing the history file and writing the HTML
  document throw (creating the directory \<^verbatim>\<open>./reports\<close> included); a write that throws
  leaves the file as it was. \<open>now\<close> is \<^verbatim>\<open>new Date().toISOString()\<close>.
\<close>

record world =
  LIGHTHOUSE_REPORT :: "report_doc option"
  PERFORMANCE_LOG :: "history_doc option"
  log_write_fails :: bool
  performance_report :: "page option"
  report_write_fails :: bool
  buildDir :: build
  GITHUB_SHA :: "string option"
  GITHUB_REF_NAME :: "string option"
  now :: string
  console :: "line list"

definition say :: "stream \<Rightarrow> message \<Rightarrow> world \<Rightarrow> world" where
  "say s t w = w\<lparr>console := console w @ [(s, t)]\<rparr>"

section \<open>savePerformanceHistory\<close>

text \<open>\<^verbatim>\<open>process.env.X || 'local'\<close>: a variable that is not set or is empty gives \<^verbatim>\<open>'local'\<close>.\<close>

fun or_local :: "string option \<Rightarrow> string" where
  "or_local None = ''local''"
| "or_local (Some s) = (if s = [] then ''local'' else s)"

text \<open>\<^verbatim>\<open>xs.slice(start)\<close>: a negative start counts from the end.\<close>

definition slice :: "int \<Rightarrow> 'a list \<Rightarrow> 'a list" where
  "slice start xs =
     (let len = int (length xs);
          k = (if start < 0 then max (len + start) 0 else min start len)
      in drop (nat k) xs)"

text \<open>Lines 214 to 219: \<^verbatim>\<open>history.push(historyData)\<close> and the cap.\<close>

definition push_capped :: "entry list \<Rightarrow> entry \<Rightarrow> entry list" where
  "push_capped history historyData =
     (let history = history @ [historyData]
      in if 50 < length history then slice (- 50) history else history)"

text \<open>
  Lines 208 to 212: the history the script starts from, or the exception thrown on the
  way (by \<^verbatim>\<open>JSON.parse\<close>, or by \<^verbatim>\<open>history.push\<close> on a document that is no array).
\<close>

definition read_history :: "world \<Rightarrow> exn + entry list" where
  "read_history w =
     (case PERFORMANCE_LOG w of
        None \<Rightarrow> Inr []
      | Some Malformed \<Rightarrow> Inl SyntaxError
      | Some NonArray \<Rightarrow> Inl TypeError
      | Some (Entries history) \<Rightarrow> Inr history)"

text \<open>
  Lines 197 to 233. The \<^verbatim>\<open>try\<close> block either writes the new history and logs that it
  has, or throws, and then the \<^verbatim>\<open>catch\<close> block prints a warning. The file holds the
  array handed to \<^verbatim>\<open>JSON.stringify\<close>.
\<close>

definition savePerformanceHistory ::
  "(string \<times> jsnum) list \<Rightarrow> (string \<times> jsnum) list \<Rightarrow> world \<Rightarrow> world" where
  "savePerformanceHistory scs mts w =
     (let historyData = \<lparr>timestamp = now w,
                         commit = or_local (GITHUB_SHA w),
                         branch = or_local (GITHUB_REF_NAME w),
                         scores = scs, metrics = mts\<rparr>
      in case read_history w of
           Inl e \<Rightarrow> say Warn (HistoryNotSaved e) w
         | Inr history \<Rightarrow>
             if log_write_fails w then say Warn (HistoryNotSaved IOError) w
             else say Log HistoryUpdated
                    (w\<lparr>PERFORMANCE_LOG := Some (Entries (push_capped history historyData))\<rparr>))"

section \<open>checkBundleSize\<close>

text \<open>\<^verbatim>\<open>s.endsWith(suf)\<close>.\<close>

definition endsWith :: "string \<Rightarrow> string \<Rightarrow> bool" where
  "endsWith s suf = (length suf \<le> length s \<and> drop (length s - length suf) s = suf)"

text \<open>
  Lines 152 to 195. The function only prints; an exception of \<^verbatim>\<open>readdirSync\<close> or
  \<^verbatim>\<open>statSync\<close> is caught inside it, before any file has been printed.
\<close>

definition checkBundleSize :: "world \<Rightarrow> world" where
  "checkBundleSize w =
     (let maxBundleSize = 250 * 1024
      in case buildDir w of
           NoBuildDir \<Rightarrow> say Warn BuildDirNotFound w
         | Unreadable \<Rightarrow> say Warn BundleNotAnalyzed (say Log Rule (say Log BundleHeader w))
         | Files fs \<Rightarrow>
             let files = sort_key (\<lambda>f. - snd f)
                           (filter (\<lambda>f. endsWith (fst f) ''.js'' \<or> endsWith (fst f) ''.css'') fs);
                 totalSize = sum_list (map snd files);
                 w1 = foldl (\<lambda>w f. say Log (BundleFile (snd f \<le> maxBundleSize) (fst f) (snd f)) w)
                        (say Log Rule (say Log BundleHeader w)) files
             in say Log (BundleTotal (totalSize \<le> maxBundleSize * 3) totalSize)
                  (say Log Rule w1))"

section \<open>generatePerformanceReport\<close>

text \<open>
  Lines 235 to 331. Building the HTML text does not throw; \<^verbatim>\<open>fs.mkdirSync\<close> and
  \<^verbatim>\<open>fs.writeFileSync\<close> may, and nothing in the function catches that. The result is
  the exception with the world it was thrown in, or the world after the function returned.
\<close>

definition generatePerformanceReport ::
  "result list \<Rightarrow> (string \<times> jsnum) list \<Rightarrow> (string \<times> jsnum) list \<Rightarrow> world
     \<Rightarrow> (exn \<times> world) + world" where
  "generatePerformanceReport rs scs mts w =
     (if report_write_fails w then Inl (IOError, w)
      else Inr (say Log ReportGenerated
                  (w\<lparr>performance_report :=
                       Some \<lparr>page_results = rs, page_scores = scs, page_metrics = mts\<rparr>\<rparr>)))"

section \<open>checkPerformance\<close>

text \<open>Lines 134 to 140: the message that the checks failed and the five suggestions.\<close>

definition suggestions :: "world \<Rightarrow> world" where
  "suggestions w =
     foldl (\<lambda>w t. say Log t w) w
       [ChecksFailed, SuggestionsHeader, Suggestion 1, Suggestion 2, Suggestion 3,
        Suggestion 4, Suggestion 5]"

text \<open>
  Lines 34 to 144, the \<^verbatim>\<open>try\<close> block after the test that the report exists. The result is
  either an exception with the world it was thrown in, or the status \<^verbatim>\<open>process.exit\<close> was
  called with and the world at that moment.
\<close>

definition checkPerformance_try :: "report_doc \<Rightarrow> world \<Rightarrow> (exn \<times> world) + (nat \<times> world)" where
  "checkPerformance_try doc w =
     (case doc of
        Unparsable \<Rightarrow> Inl (SyntaxError, w)
      | Report l \<Rightarrow>
          (case extract_scores l of
             None \<Rightarrow> Inl (TypeError, w)
           | Some scs \<Rightarrow>
               (case extract_metrics l of
                  None \<Rightarrow> Inl (TypeError, w)
                | Some mts \<Rightarrow>
                    let st = evaluate scs mts;
                        w1 = w\<lparr>console := console w @ printed st\<rparr>;
                        w2 = savePerformanceHistory scs mts w1;
                        w3 = checkBundleSize w2;
                        w4 = say Log DoubleRule w3
                    in if passed st
                       then (case generatePerformanceReport (results st) scs mts
                                    (say Log AllPassed w4) of
                               Inl thrown \<Rightarrow> Inl thrown
                             | Inr w5 \<Rightarrow> Inr (0, w5))
                       else (case generatePerformanceReport (results st) scs mts
                                    (suggestions w4) of
                               Inl thrown \<Rightarrow> Inl thrown
                             | Inr w5 \<Rightarrow> Inr (1, w5)))))"

text \<open>
  Lines 24 to 150: the exit status of the process and the world it leaves. An exception
  of the \<^verbatim>\<open>try\<close> block reaches the \<^verbatim>\<open>catch\<close> block, which prints it and exits with 1.
\<close>

definition checkPerformance :: "world \<Rightarrow> nat \<times> world" where
  "checkPerformance w0 =
     (let w = say Log Analyzing w0
      in case LIGHTHOUSE_REPORT w of
           None \<Rightarrow> (1, say Error ReportNotFound w)
         | Some doc \<Rightarrow>
             (case checkPerformance_try doc w of
                Inl (e, w') \<Rightarrow> (1, say Error (ErrorAnalyzing e) w')
              | Inr exit \<Rightarrow> exit))"

section \<open>An example run\<close>

text \<open>
  A report in which every category has the score 1 and every audit the value 50, but for
  the layout shift, which is 0; and a world holding that report and nothing else: no
  history file, no \<^verbatim>\<open>./dist\<close>, no environment variable, an empty console.
\<close>

definition example_lhr :: lhr where
  "example_lhr =
     \<lparr>categories = (\<lambda>c. Some (Fin 1)),
      audits = (\<lambda>a. if a = ''cumulative-layout-shift'' then Some (Fin 0) else Some (Fin 50))\<rparr>"

definition example_scores :: "(string \<times> jsnum) list" where
  "example_scores =
     [(''performance'', Fin 100), (''accessibility'', Fin 100),
      (''best-practices'', Fin 100), (''seo'', Fin 100)]"

definition example_metrics :: "(string \<times> jsnum) list" where
  "example_metrics =
     [(''first-contentful-paint'', Fin 50), (''largest-contentful-paint'', Fin 50),
      (''first-input-delay'', Fin 50), (''cumulative-layout-shift'', Fin 0),
      (''speed-index'', Fin 50), (''interactive'', Fin 50)]"

definition example_world :: world where
  "example_world =
     \<lparr>LIGHTHOUSE_REPORT = Some (Report example_lhr),
      PERFORMANCE_LOG = None,
      log_write_fails = False,
      performance_report = None,
      report_write_fails = False,
      buildDir = NoBuildDir,
      GITHUB_SHA = None,
      GITHUB_REF_NAME = None,
      now = ''2024-01-01T00:00:00.000Z'',
      console = []\<rparr>"

text \<open>An entry of an earlier run, to fill a history with.\<close>

definition example_entry :: entry where
  "example_entry =
     \<lparr>timestamp = ''2023-12-31T00:00:00.000Z'', commit = ''local'', branch = ''local'',
      scores = example_scores, metrics = example_metrics\<rparr>"

text \<open>
  The example report with a performance category that has no \<^verbatim>\<open>score\<close>, and the example
  report with a \<^verbatim>\<open>first-contentful-paint\<close> audit that has no \<^verbatim>\<open>numericValue\<close>: reading the
  absent property gives \<^verbatim>\<open>undefined\<close>, which converts to NaN.
\<close>

definition example_lhr_without_score :: lhr where
  "example_lhr_without_score =
     example_lhr\<lparr>categories :=
       (\<lambda>c. if c = ''performance'' then Some NaN else Some (Fin 1))\<rparr>"

definition example_lhr_without_value :: lhr where
  "example_lhr_without_value =
     example_lhr\<lparr>audits :=
       (\<lambda>a. if a = ''first-contentful-paint'' then Some NaN
            else if a = ''cumulative-layout-shift'' then Some (Fin 0) else Some (Fin 50))\<rparr>"

section \<open>Facts about the numbers\<close>

lemma js_lt_irrefl [simp]: "\<not> js_lt x x"
  by (cases x) simp_all

lemma js_ge_iff: "x \<noteq> NaN \<Longrightarrow> y \<noteq> NaN \<Longrightarrow> js_ge x y = (\<not> js_lt x y)"
  by (simp add: js_ge_def)

lemma js_le_iff: "x \<noteq> NaN \<Longrightarrow> y \<noteq> NaN \<Longrightarrow> js_le x y = (\<not> js_gt x y)"
  by (simp add: js_le_def js_gt_def)

lemma binary64_not_NaN [simp]: "binary64 x \<noteq> NaN"
  by (simp add: binary64_def Let_def)

lemma js_times_100_NaN [simp]: "js_times x (Fin 100) = NaN \<longleftrightarrow> x = NaN"
  by (cases x) simp_all

lemma Math_round_NaN [simp]: "Math_round x = NaN \<longleftrightarrow> x = NaN"
  by (cases x) simp_all

text \<open>
  How \<open>binary64\<close> is evaluated at a positive number of the normal range: from its
  exponent and its rounded significand, each of which is computed on its own.
\<close>

lemma binary64_eval:
  assumes "0 < x" and "ilog2 x = e" and "- 1022 \<le> e"
    and "round_half_even (x / pow2 (e - 52)) = m"
    and "of_int m * pow2 (e - 52) = r" and "r < 2 ^ 1024"
  shows "binary64 x = Fin r"
proof -
  have a: "\<bar>x\<bar> = x"
    using assms(1) by simp
  have e: "max (ilog2 x) (- 1022) = e"
    using assms(2,3) by simp
  have p: "pow2 1024 = 2 ^ 1024"
    by (simp add: pow2_def)
  have "\<not> pow2 1024 \<le> r"
    unfolding p using assms(6) by (simp only: not_le)
  then show ?thesis
    unfolding binary64_def Let_def a e assms(4) assms(5)
    using assms(1) by simp
qed

text \<open>The literal \<^verbatim>\<open>0.895\<close> is the binary64 just above 0.895.\<close>

lemma literal_0895: "literal (895 / 1000) = Fin (2015360833248297 / 2251799813685248)"
  unfolding literal_def
proof (rule binary64_eval [where e = "- 1" and m = 8061443332993188])
  show "(0::rat) < 895 / 1000" by simp
  show "ilog2 (895 / 1000) = - 1" by code_simp
  show "- 1022 \<le> (- 1 :: int)" by simp
  show "round_half_even (895 / 1000 / pow2 (- 1 - 52)) = 8061443332993188" by code_simp
  show "rat_of_int 8061443332993188 * pow2 (- 1 - 52) = 2015360833248297 / 2251799813685248"
    by code_simp
  show "(2015360833248297 / 2251799813685248 :: rat) < 2 ^ 1024" by simp
qed

text \<open>Its product with 100 is not representable and rounds to 89.5.\<close>

lemma times_100_0895:
  "js_times (Fin (2015360833248297 / 2251799813685248)) (Fin 100) = Fin (179 / 2)"
  unfolding js_times.simps
proof (rule binary64_eval [where e = 6 and m = 6298002603900928])
  show "(0::rat) < 2015360833248297 / 2251799813685248 * 100" by simp
  show "ilog2 (2015360833248297 / 2251799813685248 * 100) = 6" by code_simp
  show "- 1022 \<le> (6 :: int)" by simp
  show "round_half_even (2015360833248297 / 2251799813685248 * 100 / pow2 (6 - 52))
          = 6298002603900928"
    by code_simp
  show "rat_of_int 6298002603900928 * pow2 (6 - 52) = 179 / 2" by code_simp
  show "(179 / 2 :: rat) < 2 ^ 1024" by simp
qed

text \<open>The threshold \<^verbatim>\<open>0.1\<close> of the layout shift is the binary64 just above one tenth.\<close>

lemma literal_01: "literal (1 / 10) = Fin (3602879701896397 / 36028797018963968)"
  unfolding literal_def
proof (rule binary64_eval [where e = "- 4" and m = 7205759403792794])
  show "(0::rat) < 1 / 10" by simp
  show "ilog2 (1 / 10) = - 4" by code_simp
  show "- 1022 \<le> (- 4 :: int)" by simp
  show "round_half_even (1 / 10 / pow2 (- 4 - 52)) = 7205759403792794" by code_simp
  show "rat_of_int 7205759403792794 * pow2 (- 4 - 52) = 3602879701896397 / 36028797018963968"
    by code_simp
  show "(3602879701896397 / 36028797018963968 :: rat) < 2 ^ 1024" by simp
qed

section \<open>Facts about the evaluation loops\<close>

lemma THRESHOLDS_scores:
  "THRESHOLDS ''performance'' = Number (Fin 90)"
  "THRESHOLDS ''accessibility'' = Number (Fin 90)"
  "THRESHOLDS ''best-practices'' = Number (Fin 90)"
  "THRESHOLDS ''seo'' = Number (Fin 90)"
  by (simp_all add: THRESHOLDS_def)

lemma THRESHOLDS_metrics:
  "THRESHOLDS ''first-contentful-paint'' = Number (Fin 1800)"
  "THRESHOLDS ''largest-contentful-paint'' = Number (Fin 2500)"
  "THRESHOLDS ''first-input-delay'' = Number (Fin 100)"
  "THRESHOLDS ''cumulative-layout-shift'' = Number (Fin (3602879701896397 / 36028797018963968))"
  "THRESHOLDS ''speed-index'' = Number (Fin 3000)"
  "THRESHOLDS ''interactive'' = Number (Fin 3500)"
  by (simp_all add: THRESHOLDS_def literal_01)

lemma score_step_results:
  "results (score_step st (c, s)) =
     results st @ [\<lparr>type' = ''score'', category = c, value' = s, threshold = THRESHOLDS c,
                    status = (if js_lt s (toNumber (THRESHOLDS c)) then ''failed''
                              else ''passed'')\<rparr>]"
  by (simp add: score_step_def push_def print_def Let_def)

lemma score_step_passed:
  "passed (score_step st (c, s)) = (passed st \<and> \<not> js_lt s (toNumber (THRESHOLDS c)))"
  by (simp add: score_step_def push_def print_def Let_def)

lemma metric_step_skip: "falsy (THRESHOLDS m) \<Longrightarrow> metric_step st (m, v) = st"
  by (simp add: metric_step_def)

lemma metric_step_results:
  "\<not> falsy (THRESHOLDS m) \<Longrightarrow>
   results (metric_step st (m, v)) =
     results st @ [\<lparr>type' = ''metric'', category = m, value' = Math_round v,
                    threshold = THRESHOLDS m,
                    status = (if js_gt v (toNumber (THRESHOLDS m)) then ''failed''
                              else ''passed'')\<rparr>]"
  by (simp add: metric_step_def push_def print_def Let_def)

lemma metric_step_passed:
  "\<not> falsy (THRESHOLDS m) \<Longrightarrow>
   passed (metric_step st (m, v)) = (passed st \<and> \<not> js_gt v (toNumber (THRESHOLDS m)))"
  by (simp add: metric_step_def push_def print_def Let_def)

lemma results_foldl_score_step:
  "results (foldl score_step st xs) =
     results st @
     map (\<lambda>(c, s). \<lparr>type' = ''score'', category = c, value' = s, threshold = THRESHOLDS c,
                     status = (if js_lt s (toNumber (THRESHOLDS c)) then ''failed''
                               else ''passed'')\<rparr>) xs"
proof (induction xs arbitrary: st)
  case Nil
  show ?case by simp
next
  case (Cons x xs)
  obtain c s where x: "x = (c, s)" by (cases x)
  show ?case
    by (simp only: foldl_Cons Cons.IH x score_step_results list.map append_assoc
          append_Cons append_Nil prod.case)
qed

lemma results_foldl_metric_step:
  "results (foldl metric_step st xs) =
     results st @
     map (\<lambda>(m, v). \<lparr>type' = ''metric'', category = m, value' = Math_round v,
                     threshold = THRESHOLDS m,
                     status = (if js_gt v (toNumber (THRESHOLDS m)) then ''failed''
                               else ''passed'')\<rparr>)
       (filter (\<lambda>(m, v). \<not> falsy (THRESHOLDS m)) xs)"
proof (induction xs arbitrary: st)
  case Nil
  show ?case by simp
next
  case (Cons x xs)
  obtain m v where x: "x = (m, v)" by (cases x)
  show ?case
  proof (cases "falsy (THRESHOLDS m)")
    case True
    then show ?thesis
      by (simp only: foldl_Cons Cons.IH x metric_step_skip filter.simps prod.case
            not_True_eq_False if_False)
  next
    case False
    then show ?thesis
      by (simp only: foldl_Cons Cons.IH x metric_step_results filter.simps list.map
            append_assoc append_Cons append_Nil prod.case not_False_eq_True if_True)
  qed
qed

lemma passed_foldl_score_step:
  "passed (foldl score_step st xs) =
     (passed st \<and> list_all (\<lambda>(c, s). \<not> js_lt s (toNumber (THRESHOLDS c))) xs)"
proof (induction xs arbitrary: st)
  case Nil
  show ?case by simp
next
  case (Cons x xs)
  obtain c s where x: "x = (c, s)" by (cases x)
  show ?case
    by (simp only: foldl_Cons Cons.IH x score_step_passed list.pred_inject prod.case conj_assoc)
qed

lemma passed_foldl_metric_step:
  "passed (foldl metric_step st xs) =
     (passed st \<and> list_all (\<lambda>(m, v). \<not> js_gt v (toNumber (THRESHOLDS m)))
                     (filter (\<lambda>(m, v). \<not> falsy (THRESHOLDS m)) xs))"
proof (induction xs arbitrary: st)
  case Nil
  show ?case by simp
next
  case (Cons x xs)
  obtain m v where x: "x = (m, v)" by (cases x)
  show ?case
  proof (cases "falsy (THRESHOLDS m)")
    case True
    then show ?thesis
      by (simp only: foldl_Cons Cons.IH x metric_step_skip filter.simps prod.case
            not_True_eq_False if_False)
  next
    case False
    then show ?thesis
      by (simp only: foldl_Cons Cons.IH x metric_step_passed filter.simps list.pred_inject
            prod.case not_False_eq_True if_True conj_assoc)
  qed
qed

lemma print_fields [simp]:
  "results (print t st) = results st"
  "passed (print t st) = passed st"
  by (simp_all add: print_def)

lemma results_evaluate:
  "results (evaluate scs mts) =
     map (\<lambda>(c, s). \<lparr>type' = ''score'', category = c, value' = s, threshold = THRESHOLDS c,
                     status = (if js_lt s (toNumber (THRESHOLDS c)) then ''failed''
                               else ''passed'')\<rparr>) scs
     @ map (\<lambda>(m, v). \<lparr>type' = ''metric'', category = m, value' = Math_round v,
                       threshold = THRESHOLDS m,
                       status = (if js_gt v (toNumber (THRESHOLDS m)) then ''failed''
                                 else ''passed'')\<rparr>)
         (filter (\<lambda>(m, v). \<not> falsy (THRESHOLDS m)) mts)"
  unfolding evaluate_def Let_def results_foldl_metric_step results_foldl_score_step print_fields
  by simp

lemma passed_evaluate:
  "passed (evaluate scs mts) =
     (list_all (\<lambda>(c, s). \<not> js_lt s (toNumber (THRESHOLDS c))) scs \<and>
      list_all (\<lambda>(m, v). \<not> js_gt v (toNumber (THRESHOLDS m)))
        (filter (\<lambda>(m, v). \<not> falsy (THRESHOLDS m)) mts))"
  unfolding evaluate_def Let_def passed_foldl_metric_step passed_foldl_score_step print_fields
  by simp

lemma score_threshold:
  "c \<in> {''performance'', ''accessibility'', ''best-practices'', ''seo''} \<Longrightarrow>
   THRESHOLDS c = Number (Fin 90)"
  by (auto simp: THRESHOLDS_scores)

lemma metric_threshold:
  "m \<in> {''first-contentful-paint'', ''largest-contentful-paint'', ''first-input-delay'',
         ''cumulative-layout-shift'', ''speed-index'', ''interactive''} \<Longrightarrow>
   \<exists>t. THRESHOLDS m = Number t \<and> t \<noteq> NaN \<and> \<not> falsy (Number t)"
  by (auto simp: THRESHOLDS_metrics)

lemma extract_scores_Some:
  assumes "extract_scores l = Some scs"
  obtains p a b s where
    "categories l ''performance'' = Some p"
    "categories l ''accessibility'' = Some a"
    "categories l ''best-practices'' = Some b"
    "categories l ''seo'' = Some s"
    "scs = [(''performance'', Math_round (js_times p (Fin 100))),
            (''accessibility'', Math_round (js_times a (Fin 100))),
            (''best-practices'', Math_round (js_times b (Fin 100))),
            (''seo'', Math_round (js_times s (Fin 100)))]"
  using assms unfolding extract_scores_def
  by (auto split: Option.bind_splits)

lemma extract_metrics_Some:
  assumes "extract_metrics l = Some mts"
  obtains fcp lcp fid cls si tti where
    "mts = [(''first-contentful-paint'', fcp),
            (''largest-contentful-paint'', lcp),
            (''first-input-delay'', fid),
            (''cumulative-layout-shift'', cls),
            (''speed-index'', si),
            (''interactive'', tti)]"
  using assms unfolding extract_metrics_def
  by (auto split: Option.bind_splits)

lemma round_1800: "Math_round (Fin (7201 / 4)) = Fin 1800"
  by code_simp

text \<open>
  A score or a value that is no number (\<open>NaN\<close>) fails both comparisons of a callback: the
  line printed for it carries the mark of a failure, and the record pushed for it is
  passed.
\<close>

lemma js_lt_NaN [simp]: "\<not> js_lt x NaN"
  by (cases x) simp_all

lemma NaN_is_recorded_as_passed:
  "\<not> js_ge NaN t \<and> status (last (results (score_step st (c, NaN)))) = ''passed''"
  "\<not> falsy (THRESHOLDS m) \<Longrightarrow>
     \<not> js_le NaN t \<and> status (last (results (metric_step st (m, NaN)))) = ''passed''"
  by (simp_all add: score_step_results metric_step_results js_gt_def js_ge_def js_le_def)

text \<open>The example report is extracted and evaluated as follows.\<close>

lemma times_100_one: "js_times (Fin 1) (Fin 100) = Fin 100"
  unfolding js_times.simps
proof (rule binary64_eval [where e = 6 and m = 7036874417766400])
  show "(0::rat) < 1 * 100" by simp
  show "ilog2 (1 * 100) = 6" by code_simp
  show "- 1022 \<le> (6 :: int)" by simp
  show "round_half_even (1 * 100 / pow2 (6 - 52)) = 7036874417766400" by code_simp
  show "rat_of_int 7036874417766400 * pow2 (6 - 52) = 100" by code_simp
  show "(100 :: rat) < 2 ^ 1024" by simp
qed

lemma example_extract_scores: "extract_scores example_lhr = Some example_scores"
proof -
  have "Math_round (js_times (Fin 1) (Fin 100)) = Fin 100"
    unfolding times_100_one by code_simp
  then show ?thesis
    unfolding extract_scores_def example_lhr_def example_scores_def
    by (simp only: lhr.simps Option.bind.simps)
qed

lemma example_extract_metrics: "extract_metrics example_lhr = Some example_metrics"
  by (simp add: extract_metrics_def example_lhr_def example_metrics_def)

lemma example_passed: "passed (evaluate example_scores example_metrics)"
  by (simp add: passed_evaluate example_scores_def example_metrics_def THRESHOLDS_scores
        THRESHOLDS_metrics js_gt_def)


section \<open>The category scores (C7)\<close>

text \<open>
  On numbers the two conditions of the score callback agree: for a percentage \<open>s\<close> that
  comes from a fractional score that is a number, the record is passed if and only if
  \<open>s >= t\<close>, and \<^verbatim>\<open>passed\<close> stays true only if \<open>s >= t\<close>; \<open>s\<close> equal to \<open>t\<close> passes.
\<close>

lemma score_step_on_numbers:
  assumes "c \<in> {''performance'', ''accessibility'', ''best-practices'', ''seo''}"
    and "f \<noteq> NaN"
    and "s = Math_round (js_times f (Fin 100))"
  shows "\<exists>t. THRESHOLDS c = Number t \<and>
           results (score_step st (c, s)) =
             results st @ [\<lparr>type' = ''score'', category = c, value' = s, threshold = Number t,
                            status = (if js_ge s t then ''passed'' else ''failed'')\<rparr>] \<and>
           passed (score_step st (c, s)) = (passed st \<and> js_ge s t) \<and>
           (s = t \<longrightarrow> js_ge s t)"
proof -
  have t: "THRESHOLDS c = Number (Fin 90)"
    using assms(1) by (rule score_threshold)
  have s: "s \<noteq> NaN"
    using assms(2,3) by simp
  have ge: "js_ge s (Fin 90) = (\<not> js_lt s (Fin 90))"
    using s by (simp add: js_ge_iff)
  have "results (score_step st (c, s)) =
             results st @ [\<lparr>type' = ''score'', category = c, value' = s,
                            threshold = Number (Fin 90),
                            status = (if js_ge s (Fin 90) then ''passed'' else ''failed'')\<rparr>]"
    by (simp add: t score_step_results ge)
  moreover have "passed (score_step st (c, s)) = (passed st \<and> js_ge s (Fin 90))"
    by (simp add: t score_step_passed ge)
  moreover have "s = Fin 90 \<longrightarrow> js_ge s (Fin 90)"
    by (simp add: js_ge_def)
  ultimately show ?thesis
    using t by blast
qed

text \<open>
  C7. In a report whose performance category carries the score \<^verbatim>\<open>0.895\<close>, the extracted
  percentage is 90: the literal is the binary64 nearest to 0.895, its product with 100
  rounds to the binary64 89.5, and \<^verbatim>\<open>Math.round\<close> takes 89.5 to 90. Against the threshold
  90 the record of the performance score, the first of \<^verbatim>\<open>results\<close>, is passed.
\<close>

theorem boundary_score_0895_passes:
  assumes "categories l ''performance'' = Some (literal (895 / 1000))"
    and "extract_scores l = Some scs"
  shows "(\<exists>rest. scs = (''performance'', Fin 90) # rest) \<and>
         (\<exists>rs. results (evaluate scs mts) =
                 \<lparr>type' = ''score'', category = ''performance'', value' = Fin 90,
                    threshold = Number (Fin 90), status = ''passed''\<rparr> # rs)"
proof -
  have r: "Math_round (js_times (literal (895 / 1000)) (Fin 100)) = Fin 90"
    unfolding literal_0895 times_100_0895 by code_simp
  obtain p rest where p: "categories l ''performance'' = Some p"
    and scs: "scs = (''performance'', Math_round (js_times p (Fin 100))) # rest"
    using assms(2) by (rule extract_scores_Some)
  have "p = literal (895 / 1000)"
    using p assms(1) by (simp only: option.inject)
  then have scs': "scs = (''performance'', Fin 90) # rest"
    using scs by (simp only: r)
  have "\<exists>rs. results (evaluate scs mts) =
                 \<lparr>type' = ''score'', category = ''performance'', value' = Fin 90,
                    threshold = Number (Fin 90), status = ''passed''\<rparr> # rs"
    by (simp add: results_evaluate scs' THRESHOLDS_scores)
  with scs' show ?thesis
    by blast
qed

theorem boundary_score_0895_passes_witness:
  "categories \<lparr>categories = (\<lambda>c. Some (literal (895 / 1000))), audits = (\<lambda>a. None)\<rparr>
     ''performance'' = Some (literal (895 / 1000)) \<and>
   extract_scores \<lparr>categories = (\<lambda>c. Some (literal (895 / 1000))), audits = (\<lambda>a. None)\<rparr>
     = Some [(''performance'', Fin 90), (''accessibility'', Fin 90),
             (''best-practices'', Fin 90), (''seo'', Fin 90)] \<and>
   (\<exists>rs. results (evaluate [(''performance'', Fin 90), (''accessibility'', Fin 90),
                            (''best-practices'', Fin 90), (''seo'', Fin 90)] []) =
           \<lparr>type' = ''score'', category = ''performance'', value' = Fin 90,
              threshold = Number (Fin 90), status = ''passed''\<rparr> # rs)"
proof -
  have r: "Math_round (js_times (literal (895 / 1000)) (Fin 100)) = Fin 90"
    unfolding literal_0895 times_100_0895 by code_simp
  have c: "categories \<lparr>categories = (\<lambda>c. Some (literal (895 / 1000))), audits = (\<lambda>a. None)\<rparr>
             ''performance'' = Some (literal (895 / 1000))"
    by (simp only: lhr.simps)
  have e: "extract_scores \<lparr>categories = (\<lambda>c. Some (literal (895 / 1000))), audits = (\<lambda>a. None)\<rparr>
     = Some [(''performance'', Fin 90), (''accessibility'', Fin 90),
             (''best-practices'', Fin 90), (''seo'', Fin 90)]"
    unfolding extract_scores_def by (simp only: lhr.simps Option.bind.simps r)
  show ?thesis
    using c e boundary_score_0895_passes [OF c e, of "[]"] by blast
qed

section \<open>The timing and stability metrics (C8, C9)\<close>

text \<open>
  On numbers the two conditions of the metric callback agree: for each of the six metrics
  and a value \<open>v\<close> that is a number, the record is passed if and only if \<open>v <= t\<close>, and
  \<^verbatim>\<open>passed\<close> stays true only if \<open>v <= t\<close>; a value equal to the threshold passes and a
  value above it fails.
\<close>

lemma metric_step_on_numbers:
  assumes "m \<in> {''first-contentful-paint'', ''largest-contentful-paint'', ''first-input-delay'',
                 ''cumulative-layout-shift'', ''speed-index'', ''interactive''}"
    and "v \<noteq> NaN"
  shows "\<exists>t. THRESHOLDS m = Number t \<and>
           results (metric_step st (m, v)) =
             results st @ [\<lparr>type' = ''metric'', category = m, value' = Math_round v,
                            threshold = Number t,
                            status = (if js_le v t then ''passed'' else ''failed'')\<rparr>] \<and>
           passed (metric_step st (m, v)) = (passed st \<and> js_le v t) \<and>
           (v = t \<longrightarrow> js_le v t) \<and>
           (js_gt v t \<longrightarrow> \<not> js_le v t)"
proof -
  obtain t where t: "THRESHOLDS m = Number t" and n: "t \<noteq> NaN" and nf: "\<not> falsy (Number t)"
    using metric_threshold [OF assms(1)] by blast
  have le: "js_le v t = (\<not> js_gt v t)"
    using assms(2) n by (simp add: js_le_iff)
  have "results (metric_step st (m, v)) =
             results st @ [\<lparr>type' = ''metric'', category = m, value' = Math_round v,
                            threshold = Number t,
                            status = (if js_le v t then ''passed'' else ''failed'')\<rparr>]"
    using nf by (simp add: t metric_step_results le)
  moreover have "passed (metric_step st (m, v)) = (passed st \<and> js_le v t)"
    using nf by (simp add: t metric_step_passed le)
  moreover have "v = t \<longrightarrow> js_le v t"
    using n by (simp add: js_le_def)
  moreover have "js_gt v t \<longrightarrow> \<not> js_le v t"
    by (simp add: le)
  ultimately show ?thesis
    using t by blast
qed

text \<open>
  On a run no metric is skipped: each of the six names \<^verbatim>\<open>checkPerformance\<close> extracts has
  a threshold that is a number other than 0.
\<close>

lemma extracted_metrics_all_evaluated:
  assumes "extract_metrics l = Some mts"
  shows "filter (\<lambda>(m, v). \<not> falsy (THRESHOLDS m)) mts = mts"
proof -
  obtain fcp lcp fid cls si tti where
    "mts = [(''first-contentful-paint'', fcp), (''largest-contentful-paint'', lcp),
            (''first-input-delay'', fid), (''cumulative-layout-shift'', cls),
            (''speed-index'', si), (''interactive'', tti)]"
    using assms by (rule extract_metrics_Some)
  then show ?thesis
    by (simp add: THRESHOLDS_metrics)
qed





text \<open>
  C9. The record of an evaluated metric stores \<^verbatim>\<open>Math.round(value)\<close>, while its status
  comes from comparing the value itself with the threshold. So a first contentful paint
  of 1800.25, strictly between the threshold 1800 and 1800.5, is recorded as failed with
  the stored value 1800, equal to the threshold.
\<close>

theorem stored_metric_value_is_rounded:
  "(\<not> falsy (THRESHOLDS m) \<longrightarrow>
      (\<exists>r. results (metric_step st (m, v)) = results st @ [r] \<and>
           value' r = Math_round v \<and>
           (status r = ''failed'' \<longleftrightarrow> js_gt v (toNumber (THRESHOLDS m))))) \<and>
   js_lt (Fin 1800) (Fin (7201 / 4)) \<and> js_lt (Fin (7201 / 4)) (Fin (1800 + 1 / 2)) \<and>
   results (metric_step st (''first-contentful-paint'', Fin (7201 / 4))) =
     results st @ [\<lparr>type' = ''metric'', category = ''first-contentful-paint'',
                    value' = Fin 1800, threshold = Number (Fin 1800), status = ''failed''\<rparr>]"
proof -
  have "\<not> falsy (THRESHOLDS m) \<longrightarrow>
      (\<exists>r. results (metric_step st (m, v)) = results st @ [r] \<and>
           value' r = Math_round v \<and>
           (status r = ''failed'' \<longleftrightarrow> js_gt v (toNumber (THRESHOLDS m))))"
    by (simp add: metric_step_results)
  moreover have "js_lt (Fin 1800) (Fin (7201 / 4))" "js_lt (Fin (7201 / 4)) (Fin (1800 + 1 / 2))"
    by simp_all
  moreover have "results (metric_step st (''first-contentful-paint'', Fin (7201 / 4))) =
     results st @ [\<lparr>type' = ''metric'', category = ''first-contentful-paint'',
                    value' = Fin 1800, threshold = Number (Fin 1800), status = ''failed''\<rparr>]"
    by (simp add: metric_step_results THRESHOLDS_metrics js_gt_def round_1800
          del: Math_round.simps)
  ultimately show ?thesis
    by blast
qed

theorem stored_metric_value_is_rounded_witness:
  "\<not> falsy (THRESHOLDS ''speed-index'') \<and>
   (\<exists>r. results (metric_step \<lparr>passed = True, results = [], printed = []\<rparr>
                   (''speed-index'', Fin 2999)) = [] @ [r] \<and>
        value' r = Math_round (Fin 2999) \<and>
        (status r = ''failed'' \<longleftrightarrow> js_gt (Fin 2999) (toNumber (THRESHOLDS ''speed-index''))))"
proof -
  have h: "\<not> falsy (THRESHOLDS ''speed-index'')"
    by (simp add: THRESHOLDS_metrics)
  show ?thesis
    using h stored_metric_value_is_rounded
              [of "''speed-index''" "\<lparr>passed = True, results = [], printed = []\<rparr>" "Fin 2999"]
    by simp
qed


section \<open>Facts about the parts of a run\<close>

lemma say_fields [simp]:
  "LIGHTHOUSE_REPORT (say s t w) = LIGHTHOUSE_REPORT w"
  "PERFORMANCE_LOG (say s t w) = PERFORMANCE_LOG w"
  "log_write_fails (say s t w) = log_write_fails w"
  "performance_report (say s t w) = performance_report w"
  "report_write_fails (say s t w) = report_write_fails w"
  "buildDir (say s t w) = buildDir w"
  "GITHUB_SHA (say s t w) = GITHUB_SHA w"
  "GITHUB_REF_NAME (say s t w) = GITHUB_REF_NAME w"
  "now (say s t w) = now w"
  "console (say s t w) = console w @ [(s, t)]"
  by (simp_all add: say_def)

lemma foldl_say_fields [simp]:
  "PERFORMANCE_LOG (foldl (\<lambda>w x. say s (g x) w) w xs) = PERFORMANCE_LOG w"
  "performance_report (foldl (\<lambda>w x. say s (g x) w) w xs) = performance_report w"
  "report_write_fails (foldl (\<lambda>w x. say s (g x) w) w xs) = report_write_fails w"
  "console (foldl (\<lambda>w x. say s (g x) w) w xs) = console w @ map (\<lambda>x. (s, g x)) xs"
  by (induction xs arbitrary: w) simp_all

lemma suggestions_fields [simp]:
  "PERFORMANCE_LOG (suggestions w) = PERFORMANCE_LOG w"
  "performance_report (suggestions w) = performance_report w"
  "report_write_fails (suggestions w) = report_write_fails w"
  unfolding suggestions_def by (simp_all only: foldl_Cons foldl_Nil say_fields)

lemma checkBundleSize_fields [simp]:
  "PERFORMANCE_LOG (checkBundleSize w) = PERFORMANCE_LOG w"
  "performance_report (checkBundleSize w) = performance_report w"
  "report_write_fails (checkBundleSize w) = report_write_fails w"
  by (simp_all add: checkBundleSize_def Let_def split: build.splits)

text \<open>A line that is on the console stays there.\<close>

lemma console_grows [simp]:
  "x \<in> set (console w) \<Longrightarrow> x \<in> set (console (checkBundleSize w))"
  "x \<in> set (console w) \<Longrightarrow> x \<in> set (console (suggestions w))"
  by (simp_all add: checkBundleSize_def suggestions_def Let_def split: build.splits)

lemma savePerformanceHistory_fields [simp]:
  "performance_report (savePerformanceHistory scs mts w) = performance_report w"
  "report_write_fails (savePerformanceHistory scs mts w) = report_write_fails w"
  by (simp_all add: savePerformanceHistory_def Let_def split: sum.splits)

text \<open>What \<^verbatim>\<open>savePerformanceHistory\<close> leaves in the history file and on the console.\<close>

lemma savePerformanceHistory_log:
  "PERFORMANCE_LOG (savePerformanceHistory scs mts w) =
     (case read_history w of
        Inl e \<Rightarrow> PERFORMANCE_LOG w
      | Inr history \<Rightarrow>
          if log_write_fails w then PERFORMANCE_LOG w
          else Some (Entries (push_capped history
                 \<lparr>timestamp = now w, commit = or_local (GITHUB_SHA w),
                    branch = or_local (GITHUB_REF_NAME w), scores = scs, metrics = mts\<rparr>)))"
  by (simp add: savePerformanceHistory_def Let_def split: sum.splits)

lemma savePerformanceHistory_console:
  "console (savePerformanceHistory scs mts w) =
     console w @
     [case read_history w of
        Inl e \<Rightarrow> (Warn, HistoryNotSaved e)
      | Inr history \<Rightarrow>
          if log_write_fails w then (Warn, HistoryNotSaved IOError) else (Log, HistoryUpdated)]"
  by (simp add: savePerformanceHistory_def Let_def split: sum.splits)

lemma read_history_console [simp]:
  "read_history (w\<lparr>console := ls\<rparr>) = read_history w"
  "read_history (say s t w) = read_history w"
  by (simp_all add: read_history_def)

text \<open>A run that reaches the evaluation, step by step.\<close>

lemma checkPerformance_reached:
  assumes "LIGHTHOUSE_REPORT w = Some (Report l)"
    and "extract_scores l = Some scs"
    and "extract_metrics l = Some mts"
  shows "checkPerformance w =
     (let st = evaluate scs mts;
          w2 = savePerformanceHistory scs mts
                 ((say Log Analyzing w)
                    \<lparr>console := console w @ (Log, Analyzing) # printed st\<rparr>);
          w4 = say Log DoubleRule (checkBundleSize w2);
          w5 = (if passed st then say Log AllPassed w4 else suggestions w4)
      in if report_write_fails w then (1, say Error (ErrorAnalyzing IOError) w5)
         else (if passed st then 0 else 1,
               say Log ReportGenerated
                 (w5\<lparr>performance_report :=
                       Some \<lparr>page_results = results st, page_scores = scs,
                              page_metrics = mts\<rparr>\<rparr>)))"
  using assms
  by (simp add: checkPerformance_def checkPerformance_try_def generatePerformanceReport_def
        Let_def)

text \<open>The exit status of every run.\<close>

lemma exit_status:
  "fst (checkPerformance w) =
     (case LIGHTHOUSE_REPORT w of
        None \<Rightarrow> 1
      | Some Unparsable \<Rightarrow> 1
      | Some (Report l) \<Rightarrow>
          (case extract_scores l of
             None \<Rightarrow> 1
           | Some scs \<Rightarrow>
               (case extract_metrics l of
                  None \<Rightarrow> 1
                | Some mts \<Rightarrow>
                    if passed (evaluate scs mts) \<and> \<not> report_write_fails w then 0 else 1)))"
  by (simp add: checkPerformance_def checkPerformance_try_def generatePerformanceReport_def
        Let_def split: option.splits report_doc.splits)


section \<open>The missing report (C5)\<close>

text \<open>
  C5. When the report file does not exist, the run prints the banner and then the error
  message "report not found" on the error stream, and exits with status 1. That is all
  it does: the history file and the HTML document are as they were.
\<close>

theorem missing_report_is_fatal:
  assumes "LIGHTHOUSE_REPORT w = None"
  shows "checkPerformance w =
           (1, w\<lparr>console := console w @ [(Log, Analyzing), (Error, ReportNotFound)]\<rparr>) \<and>
         PERFORMANCE_LOG (snd (checkPerformance w)) = PERFORMANCE_LOG w \<and>
         performance_report (snd (checkPerformance w)) = performance_report w"
  using assms by (simp add: checkPerformance_def say_def Let_def)

theorem missing_report_is_fatal_witness:
  "LIGHTHOUSE_REPORT (example_world\<lparr>LIGHTHOUSE_REPORT := None\<rparr>) = None \<and>
   fst (checkPerformance (example_world\<lparr>LIGHTHOUSE_REPORT := None\<rparr>)) = 1 \<and>
   console (snd (checkPerformance (example_world\<lparr>LIGHTHOUSE_REPORT := None\<rparr>))) =
     [(Log, Analyzing), (Error, ReportNotFound)] \<and>
   PERFORMANCE_LOG (snd (checkPerformance (example_world\<lparr>LIGHTHOUSE_REPORT := None\<rparr>))) = None"
  using missing_report_is_fatal [of "example_world\<lparr>LIGHTHOUSE_REPORT := None\<rparr>"]
  by (simp add: example_world_def)

section \<open>The history (C4, C6)\<close>

lemma push_capped_drop: "push_capped history r = drop (length history - 49) (history @ [r])"
proof -
  have "nat (int n - 49) = n - 49" for n
    by arith
  then show ?thesis
    by (simp add: push_capped_def slice_def Let_def)
qed

text \<open>
  C4. When the history file is read as an array (or does not exist, which reads as the
  empty array) and the new history is written, the file holds at most 50 entries: the
  prior entries and the new record in their order, without as many of the oldest entries
  as go beyond 50. From a prior array of 50 entries it holds exactly 50: the prior ones
  but the first, in their order, and the new record last.
\<close>

theorem history_is_capped_at_50:
  assumes "read_history w = Inr history"
    and "\<not> log_write_fails w"
    and "historyData = \<lparr>timestamp = now w, commit = or_local (GITHUB_SHA w),
                         branch = or_local (GITHUB_REF_NAME w), scores = scs, metrics = mts\<rparr>"
  shows "\<exists>new. PERFORMANCE_LOG (savePerformanceHistory scs mts w) = Some (Entries new) \<and>
           length new \<le> 50 \<and>
           new = drop (length history - 49) (history @ [historyData]) \<and>
           (length history = 50 \<longrightarrow>
              length new = 50 \<and> new = tl history @ [historyData])"
proof -
  let ?new = "push_capped history historyData"
  have "PERFORMANCE_LOG (savePerformanceHistory scs mts w) = Some (Entries ?new)"
    using assms by (simp add: savePerformanceHistory_log)
  moreover have "length ?new \<le> 50"
    by (simp add: push_capped_drop)
  moreover have "?new = drop (length history - 49) (history @ [historyData])"
    by (rule push_capped_drop)
  moreover have "length history = 50 \<longrightarrow> length ?new = 50 \<and> ?new = tl history @ [historyData]"
    by (cases history) (simp_all add: push_capped_drop)
  ultimately show ?thesis
    by blast
qed


theorem history_is_capped_at_50_witness:
  "read_history (example_world\<lparr>PERFORMANCE_LOG := Some (Entries (replicate 50 example_entry))\<rparr>)
     = Inr (replicate 50 example_entry) \<and>
   \<not> log_write_fails
       (example_world\<lparr>PERFORMANCE_LOG := Some (Entries (replicate 50 example_entry))\<rparr>) \<and>
   length (replicate 50 example_entry) = 50 \<and>
   PERFORMANCE_LOG
     (savePerformanceHistory example_scores example_metrics
        (example_world\<lparr>PERFORMANCE_LOG := Some (Entries (replicate 50 example_entry))\<rparr>)) =
     Some (Entries (tl (replicate 50 example_entry) @
       [\<lparr>timestamp = ''2024-01-01T00:00:00.000Z'', commit = ''local'', branch = ''local'',
          scores = example_scores, metrics = example_metrics\<rparr>]))"
proof -
  let ?w = "example_world\<lparr>PERFORMANCE_LOG := Some (Entries (replicate 50 example_entry))\<rparr>"
  let ?r = "\<lparr>timestamp = ''2024-01-01T00:00:00.000Z'', commit = ''local'', branch = ''local'',
             scores = example_scores, metrics = example_metrics\<rparr>"
  have r: "read_history ?w = Inr (replicate 50 example_entry)"
    by (simp add: read_history_def)
  have f: "\<not> log_write_fails ?w"
    by (simp add: example_world_def)
  have d: "?r = \<lparr>timestamp = now ?w, commit = or_local (GITHUB_SHA ?w),
                   branch = or_local (GITHUB_REF_NAME ?w),
                   scores = example_scores, metrics = example_metrics\<rparr>"
    by (simp add: example_world_def)
  have n: "length (replicate 50 example_entry) = 50"
    by simp
  show ?thesis
    using r f n history_is_capped_at_50 [OF r f d] by auto
qed

text \<open>
  The console of a run that reaches the evaluation: what \<^verbatim>\<open>savePerformanceHistory\<close> leaves
  on it, and then more, the separator before the verdict among it.
\<close>

lemma console_of_run:
  assumes "LIGHTHOUSE_REPORT w = Some (Report l)"
    and "extract_scores l = Some scs"
    and "extract_metrics l = Some mts"
  shows "\<exists>after.
           console (snd (checkPerformance w)) =
             console (savePerformanceHistory scs mts
                        ((say Log Analyzing w)
                           \<lparr>console := console w @ (Log, Analyzing) # printed (evaluate scs mts)\<rparr>))
             @ after \<and>
           (Log, DoubleRule) \<in> set after"
  by (simp add: checkPerformance_reached [OF assms] Let_def checkBundleSize_def
        suggestions_def split: build.splits)

text \<open>
  C6. In every run that reaches the evaluation, whatever the aggregate outcome, the
  history is saved right after the evaluation: the console holds the banner, the lines
  of the evaluation, one line of \<^verbatim>\<open>savePerformanceHistory\<close>, and then the rest of the run,
  the separator before the verdict among it. When the history file is read as an array
  (or does not exist) and writing it does not throw, that line says that the history was
  updated and the file holds the prior entries with the record of this run appended, cut
  to the last 50. When reading throws (the document is malformed or no array) or writing
  throws, that line is a warning and the file is as it was. The run goes on either way:
  the HTML document is written unless writing it throws, and the exit status does not
  depend on the history file or on whether writing it fails: it is the same for every
  content \<open>h\<close> of the file and either value \<open>b\<close> of the failure. The aggregate outcome
  is a function of the report alone.
\<close>

theorem history_failure_is_not_fatal:
  assumes "LIGHTHOUSE_REPORT w = Some (Report l)"
    and "extract_scores l = Some scs"
    and "extract_metrics l = Some mts"
    and "historyData = \<lparr>timestamp = now w, commit = or_local (GITHUB_SHA w),
                         branch = or_local (GITHUB_REF_NAME w), scores = scs, metrics = mts\<rparr>"
  shows "fst (checkPerformance (w\<lparr>PERFORMANCE_LOG := h, log_write_fails := b\<rparr>)) =
           fst (checkPerformance w) \<and>
         (\<exists>line after.
            console (snd (checkPerformance w)) =
              console w @ (Log, Analyzing) # printed (evaluate scs mts) @ line # after \<and>
            (Log, DoubleRule) \<in> set after \<and>
            (case PERFORMANCE_LOG w of
               None \<Rightarrow>
                 if log_write_fails w
                 then line = (Warn, HistoryNotSaved IOError) \<and>
                      PERFORMANCE_LOG (snd (checkPerformance w)) = None
                 else line = (Log, HistoryUpdated) \<and>
                      PERFORMANCE_LOG (snd (checkPerformance w)) = Some (Entries [historyData])
             | Some Malformed \<Rightarrow>
                 line = (Warn, HistoryNotSaved SyntaxError) \<and>
                 PERFORMANCE_LOG (snd (checkPerformance w)) = Some Malformed
             | Some NonArray \<Rightarrow>
                 line = (Warn, HistoryNotSaved TypeError) \<and>
                 PERFORMANCE_LOG (snd (checkPerformance w)) = Some NonArray
             | Some (Entries history) \<Rightarrow>
                 if log_write_fails w
                 then line = (Warn, HistoryNotSaved IOError) \<and>
                      PERFORMANCE_LOG (snd (checkPerformance w)) = Some (Entries history)
                 else line = (Log, HistoryUpdated) \<and>
                      PERFORMANCE_LOG (snd (checkPerformance w)) =
                        Some (Entries (drop (length history - 49) (history @ [historyData]))))) \<and>
         (\<not> report_write_fails w \<longrightarrow>
            performance_report (snd (checkPerformance w)) =
              Some \<lparr>page_results = results (evaluate scs mts), page_scores = scs,
                     page_metrics = mts\<rparr>)"
proof -
  note reach = assms(1,2,3)
  let ?w1 = "(say Log Analyzing w)
               \<lparr>console := console w @ (Log, Analyzing) # printed (evaluate scs mts)\<rparr>"
  let ?line = "case read_history w of
                 Inl e \<Rightarrow> (Warn, HistoryNotSaved e)
               | Inr history \<Rightarrow>
                   if log_write_fails w then (Warn, HistoryNotSaved IOError)
                   else (Log, HistoryUpdated)"
  have exit: "fst (checkPerformance (w\<lparr>PERFORMANCE_LOG := h, log_write_fails := b\<rparr>)) =
                fst (checkPerformance w)"
    by (simp add: exit_status split: option.splits report_doc.splits)
  obtain after where after: "console (snd (checkPerformance w)) =
      console (savePerformanceHistory scs mts ?w1) @ after"
    and rule: "(Log, DoubleRule) \<in> set after"
    using console_of_run [OF reach] by (elim exE conjE)
  have "console (savePerformanceHistory scs mts ?w1) =
          console w @ (Log, Analyzing) # printed (evaluate scs mts) @ [?line]"
    by (simp add: savePerformanceHistory_console)
  with after have console: "console (snd (checkPerformance w)) =
      console w @ (Log, Analyzing) # printed (evaluate scs mts) @ ?line # after"
    by simp
  have log: "PERFORMANCE_LOG (snd (checkPerformance w)) =
     (case read_history w of
        Inl e \<Rightarrow> PERFORMANCE_LOG w
      | Inr history \<Rightarrow>
          if log_write_fails w then PERFORMANCE_LOG w
          else Some (Entries (drop (length history - 49) (history @ [historyData]))))"
    by (simp add: checkPerformance_reached [OF reach] Let_def savePerformanceHistory_log
          push_capped_drop assms(4) split: sum.splits)
  have hist: "case PERFORMANCE_LOG w of
               None \<Rightarrow>
                 if log_write_fails w
                 then ?line = (Warn, HistoryNotSaved IOError) \<and>
                      PERFORMANCE_LOG (snd (checkPerformance w)) = None
                 else ?line = (Log, HistoryUpdated) \<and>
                      PERFORMANCE_LOG (snd (checkPerformance w)) = Some (Entries [historyData])
             | Some Malformed \<Rightarrow>
                 ?line = (Warn, HistoryNotSaved SyntaxError) \<and>
                 PERFORMANCE_LOG (snd (checkPerformance w)) = Some Malformed
             | Some NonArray \<Rightarrow>
                 ?line = (Warn, HistoryNotSaved TypeError) \<and>
                 PERFORMANCE_LOG (snd (checkPerformance w)) = Some NonArray
             | Some (Entries history) \<Rightarrow>
                 if log_write_fails w
                 then ?line = (Warn, HistoryNotSaved IOError) \<and>
                      PERFORMANCE_LOG (snd (checkPerformance w)) = Some (Entries history)
                 else ?line = (Log, HistoryUpdated) \<and>
                      PERFORMANCE_LOG (snd (checkPerformance w)) =
                        Some (Entries (drop (length history - 49) (history @ [historyData])))"
    unfolding log by (simp add: read_history_def split: option.splits history_doc.splits)
  have page: "\<not> report_write_fails w \<longrightarrow>
            performance_report (snd (checkPerformance w)) =
              Some \<lparr>page_results = results (evaluate scs mts), page_scores = scs,
                     page_metrics = mts\<rparr>"
    by (simp add: checkPerformance_reached [OF reach] Let_def)
  from console rule hist have "\<exists>line after.
            console (snd (checkPerformance w)) =
              console w @ (Log, Analyzing) # printed (evaluate scs mts) @ line # after \<and>
            (Log, DoubleRule) \<in> set after \<and>
            (case PERFORMANCE_LOG w of
               None \<Rightarrow>
                 if log_write_fails w
                 then line = (Warn, HistoryNotSaved IOError) \<and>
                      PERFORMANCE_LOG (snd (checkPerformance w)) = None
                 else line = (Log, HistoryUpdated) \<and>
                      PERFORMANCE_LOG (snd (checkPerformance w)) = Some (Entries [historyData])
             | Some Malformed \<Rightarrow>
                 line = (Warn, HistoryNotSaved SyntaxError) \<and>
                 PERFORMANCE_LOG (snd (checkPerformance w)) = Some Malformed
             | Some NonArray \<Rightarrow>
                 line = (Warn, HistoryNotSaved TypeError) \<and>
                 PERFORMANCE_LOG (snd (checkPerformance w)) = Some NonArray
             | Some (Entries history) \<Rightarrow>
                 if log_write_fails w
                 then line = (Warn, HistoryNotSaved IOError) \<and>
                      PERFORMANCE_LOG (snd (checkPerformance w)) = Some (Entries history)
                 else line = (Log, HistoryUpdated) \<and>
                      PERFORMANCE_LOG (snd (checkPerformance w)) =
                        Some (Entries (drop (length history - 49) (history @ [historyData]))))"
    by (intro exI conjI)
  with exit page show ?thesis
    by (intro conjI)
qed

theorem history_failure_is_not_fatal_witness:
  "LIGHTHOUSE_REPORT (example_world\<lparr>PERFORMANCE_LOG := Some Malformed\<rparr>)
     = Some (Report example_lhr) \<and>
   extract_scores example_lhr = Some example_scores \<and>
   extract_metrics example_lhr = Some example_metrics \<and>
   fst (checkPerformance (example_world\<lparr>PERFORMANCE_LOG := Some Malformed\<rparr>)) =
     fst (checkPerformance example_world) \<and>
   PERFORMANCE_LOG (snd (checkPerformance (example_world\<lparr>PERFORMANCE_LOG := Some Malformed\<rparr>)))
     = Some Malformed \<and>
   (\<exists>after.
      console (snd (checkPerformance (example_world\<lparr>PERFORMANCE_LOG := Some Malformed\<rparr>))) =
        (Log, Analyzing) # printed (evaluate example_scores example_metrics) @
        (Warn, HistoryNotSaved SyntaxError) # after \<and>
      (Log, DoubleRule) \<in> set after) \<and>
   PERFORMANCE_LOG
     (snd (checkPerformance (example_world\<lparr>PERFORMANCE_LOG := Some (Entries [example_entry])\<rparr>)))
     = Some (Entries [example_entry,
          \<lparr>timestamp = ''2024-01-01T00:00:00.000Z'', commit = ''local'', branch = ''local'',
             scores = example_scores, metrics = example_metrics\<rparr>])"
proof -
  let ?wm = "example_world\<lparr>PERFORMANCE_LOG := Some Malformed\<rparr>"
  let ?we = "example_world\<lparr>PERFORMANCE_LOG := Some (Entries [example_entry])\<rparr>"
  let ?r = "\<lparr>timestamp = ''2024-01-01T00:00:00.000Z'', commit = ''local'', branch = ''local'',
             scores = example_scores, metrics = example_metrics\<rparr>"
  have lm: "LIGHTHOUSE_REPORT ?wm = Some (Report example_lhr)"
    by (simp add: example_world_def)
  have le: "LIGHTHOUSE_REPORT ?we = Some (Report example_lhr)"
    by (simp add: example_world_def)
  have dm: "?r = \<lparr>timestamp = now ?wm, commit = or_local (GITHUB_SHA ?wm),
                    branch = or_local (GITHUB_REF_NAME ?wm),
                    scores = example_scores, metrics = example_metrics\<rparr>"
    by (simp add: example_world_def)
  have de: "?r = \<lparr>timestamp = now ?we, commit = or_local (GITHUB_SHA ?we),
                    branch = or_local (GITHUB_REF_NAME ?we),
                    scores = example_scores, metrics = example_metrics\<rparr>"
    by (simp add: example_world_def)
  have w: "?wm\<lparr>PERFORMANCE_LOG := None, log_write_fails := False\<rparr> = example_world"
    by (simp add: example_world_def)
  have cm: "console ?wm = []" and fe: "\<not> log_write_fails ?we"
    by (simp_all add: example_world_def)
  note malformed = history_failure_is_not_fatal
      [OF lm example_extract_scores example_extract_metrics dm,
        where h = None and b = False]
  note entries = history_failure_is_not_fatal
      [OF le example_extract_scores example_extract_metrics de,
        where h = None and b = False]
  have 1: "fst (checkPerformance ?wm) = fst (checkPerformance example_world)"
    using malformed [THEN conjunct1] by (simp only: w)
  have 2: "PERFORMANCE_LOG (snd (checkPerformance ?wm)) = Some Malformed \<and>
           (\<exists>after. console (snd (checkPerformance ?wm)) =
              (Log, Analyzing) # printed (evaluate example_scores example_metrics) @
              (Warn, HistoryNotSaved SyntaxError) # after \<and>
            (Log, DoubleRule) \<in> set after)"
    using malformed [THEN conjunct2, THEN conjunct1] by (auto simp: cm)
  have 3: "PERFORMANCE_LOG (snd (checkPerformance ?we)) = Some (Entries [example_entry, ?r])"
    using entries [THEN conjunct2, THEN conjunct1] fe by auto
  show ?thesis
    using lm example_extract_scores example_extract_metrics 1 2 3 by (intro conjI) simp_all
qed

section \<open>The HTML document (C10)\<close>

text \<open>
  C10. In a run in which every evaluated score and metric passed, an exception thrown
  while the HTML document is written reaches the \<^verbatim>\<open>catch\<close> block of \<^verbatim>\<open>checkPerformance\<close>:
  the console ends with "all checks passed" followed by the error message of that block,
  and the exit status is 1, not 0.
\<close>

theorem report_write_failure_is_fatal:
  assumes "LIGHTHOUSE_REPORT w = Some (Report l)"
    and "extract_scores l = Some scs"
    and "extract_metrics l = Some mts"
    and "passed (evaluate scs mts)"
    and "report_write_fails w"
  shows "fst (checkPerformance w) = 1 \<and>
         (\<exists>ls. console (snd (checkPerformance w)) =
                 ls @ [(Log, AllPassed), (Error, ErrorAnalyzing IOError)])"
  using assms(4,5)
  by (simp add: checkPerformance_reached [OF assms(1,2,3)] Let_def)

theorem report_write_failure_is_fatal_witness:
  "LIGHTHOUSE_REPORT (example_world\<lparr>report_write_fails := True\<rparr>) = Some (Report example_lhr) \<and>
   extract_scores example_lhr = Some example_scores \<and>
   extract_metrics example_lhr = Some example_metrics \<and>
   passed (evaluate example_scores example_metrics) \<and>
   report_write_fails (example_world\<lparr>report_write_fails := True\<rparr>) \<and>
   fst (checkPerformance (example_world\<lparr>report_write_fails := True\<rparr>)) = 1"
proof -
  let ?w = "example_world\<lparr>report_write_fails := True\<rparr>"
  have l: "LIGHTHOUSE_REPORT ?w = Some (Report example_lhr)"
    by (simp add: example_world_def)
  have f: "report_write_fails ?w"
    by simp
  show ?thesis
    using l f example_extract_scores example_extract_metrics example_passed
      report_write_failure_is_fatal
        [OF l example_extract_scores example_extract_metrics example_passed f]
    by blast
qed


section \<open>The aggregate outcome and the exit status (C1)\<close>

lemma failed_in_map:
  assumes "\<And>x. status (f x) = (if A x then ''failed'' else ''passed'')"
  shows "''failed'' \<in> status ` set (map f xs) \<longleftrightarrow> \<not> list_all (\<lambda>x. \<not> A x) xs"
  by (induction xs) (simp_all add: assms)

lemma failed_iff_not_passed:
  "''failed'' \<in> status ` set (results (evaluate scs mts)) \<longleftrightarrow> \<not> passed (evaluate scs mts)"
proof -
  let ?f = "\<lambda>(c, s). \<lparr>type' = ''score'', category = c, value' = s, threshold = THRESHOLDS c,
                     status = (if js_lt s (toNumber (THRESHOLDS c)) then ''failed''
                               else ''passed'')\<rparr>"
  let ?g = "\<lambda>(m, v). \<lparr>type' = ''metric'', category = m, value' = Math_round v,
                       threshold = THRESHOLDS m,
                       status = (if js_gt v (toNumber (THRESHOLDS m)) then ''failed''
                                 else ''passed'')\<rparr>"
  have f: "status (?f x) = (if (\<lambda>(c, s). js_lt s (toNumber (THRESHOLDS c))) x then ''failed''
                           else ''passed'')" for x
    by (cases x) simp
  have g: "status (?g x) = (if (\<lambda>(m, v). js_gt v (toNumber (THRESHOLDS m))) x then ''failed''
                           else ''passed'')" for x
    by (cases x) simp
  have eq: "(\<lambda>x. \<not> (case x of (c, s) \<Rightarrow> js_lt s (toNumber (THRESHOLDS c)))) =
            (\<lambda>(c, s). \<not> js_lt s (toNumber (THRESHOLDS c)))"
           "(\<lambda>x. \<not> (case x of (m, v) \<Rightarrow> js_gt v (toNumber (THRESHOLDS m)))) =
            (\<lambda>(m, v). \<not> js_gt v (toNumber (THRESHOLDS m)))"
    by auto
  show ?thesis
    unfolding results_evaluate passed_evaluate set_append image_Un Un_iff
      failed_in_map [of ?f, OF f] failed_in_map [of ?g, OF g] eq
    by blast
qed

text \<open>
  The claim C1 says that the exit status is 0 whenever the aggregate outcome is passed.
  In the example run every check passes; when writing the HTML document throws, the exit
  status is 1.
\<close>

theorem exit_status_of_passed_run_counterexample:
  "LIGHTHOUSE_REPORT (example_world\<lparr>report_write_fails := True\<rparr>) = Some (Report example_lhr) \<and>
   extract_scores example_lhr = Some example_scores \<and>
   extract_metrics example_lhr = Some example_metrics \<and>
   passed (evaluate example_scores example_metrics) \<and>
   fst (checkPerformance (example_world\<lparr>report_write_fails := True\<rparr>)) \<noteq> 0"
proof -
  have "LIGHTHOUSE_REPORT (example_world\<lparr>report_write_fails := True\<rparr>)
          = Some (Report example_lhr)"
    by (simp add: example_world_def)
  moreover from this
  have "fst (checkPerformance (example_world\<lparr>report_write_fails := True\<rparr>)) \<noteq> 0"
    by (simp add: exit_status example_extract_scores example_extract_metrics)
  ultimately show ?thesis
    using example_extract_scores example_extract_metrics example_passed by blast
qed

text \<open>
  C1, amended. In every run that reaches the evaluation: the aggregate outcome is failed
  if and only if some record of \<^verbatim>\<open>results\<close> is failed; the evaluation is exhaustive, every
  score and every metric contributing one record, in the order of the entries, ten in
  all; and the exit status is 1 when the aggregate outcome is failed, 0 when it is passed
  and writing the HTML document does not throw, and 1 when it is passed and writing the
  HTML document throws.
\<close>

theorem aggregate_outcome_and_exit_status:
  assumes "LIGHTHOUSE_REPORT w = Some (Report l)"
    and "extract_scores l = Some scs"
    and "extract_metrics l = Some mts"
  shows "(\<not> passed (evaluate scs mts) \<longleftrightarrow>
            ''failed'' \<in> status ` set (results (evaluate scs mts))) \<and>
         map (\<lambda>r. (type' r, category r)) (results (evaluate scs mts)) =
           map (\<lambda>e. (''score'', fst e)) scs @ map (\<lambda>e. (''metric'', fst e)) mts \<and>
         length (results (evaluate scs mts)) = 10 \<and>
         fst (checkPerformance w) =
           (if passed (evaluate scs mts) \<and> \<not> report_write_fails w then 0 else 1)"
proof -
  obtain p a b s where scs:
    "scs = [(''performance'', p), (''accessibility'', a), (''best-practices'', b), (''seo'', s)]"
    using assms(2) by (rule extract_scores_Some)
  obtain fcp lcp fid cls si tti where mts:
    "mts = [(''first-contentful-paint'', fcp), (''largest-contentful-paint'', lcp),
            (''first-input-delay'', fid), (''cumulative-layout-shift'', cls),
            (''speed-index'', si), (''interactive'', tti)]"
    using assms(3) by (rule extract_metrics_Some)
  have order: "map (\<lambda>r. (type' r, category r)) (results (evaluate scs mts)) =
           map (\<lambda>e. (''score'', fst e)) scs @ map (\<lambda>e. (''metric'', fst e)) mts"
    unfolding results_evaluate scs mts by (simp add: THRESHOLDS_metrics)
  then have "length (map (\<lambda>r. (type' r, category r)) (results (evaluate scs mts))) = 10"
    by (simp only: scs mts) simp
  then have len: "length (results (evaluate scs mts)) = 10"
    by simp
  have exit: "fst (checkPerformance w) =
                (if passed (evaluate scs mts) \<and> \<not> report_write_fails w then 0 else 1)"
    by (simp add: exit_status assms)
  show ?thesis
    using failed_iff_not_passed [of scs mts] order len exit by simp
qed

theorem aggregate_outcome_and_exit_status_witness:
  "LIGHTHOUSE_REPORT example_world = Some (Report example_lhr) \<and>
   extract_scores example_lhr = Some example_scores \<and>
   extract_metrics example_lhr = Some example_metrics \<and>
   passed (evaluate example_scores example_metrics) \<and>
   \<not> report_write_fails example_world \<and>
   ''failed'' \<notin> status ` set (results (evaluate example_scores example_metrics)) \<and>
   length (results (evaluate example_scores example_metrics)) = 10 \<and>
   fst (checkPerformance example_world) = 0"
proof -
  have l: "LIGHTHOUSE_REPORT example_world = Some (Report example_lhr)"
    by (simp add: example_world_def)
  have f: "\<not> report_write_fails example_world"
    by (simp add: example_world_def)
  show ?thesis
    using l f example_passed example_extract_scores example_extract_metrics
      aggregate_outcome_and_exit_status [OF l example_extract_scores example_extract_metrics]
    by simp
qed


section \<open>Scores and values that are no numbers (C2, C3)\<close>

text \<open>
  C2. The claim says that the recorded outcome of a category score is passed if and only
  if \<open>s >= t\<close>. The callback decides the record by \<^verbatim>\<open>score < threshold\<close> (line 68), which is
  not the negation of the condition \<^verbatim>\<open>score >= threshold\<close> it prints the mark by (line 63)
  when the score is NaN. In the example report with a performance category without a
  score, the extracted percentage is NaN and \<open>s >= t\<close> is false; the callback prints the
  line with the mark of a failure and pushes a record that is passed; every other check
  passes, and the run exits with status 0.
\<close>

theorem score_without_number_is_recorded_passed:
  "extract_scores example_lhr_without_score =
     Some [(''performance'', NaN), (''accessibility'', Fin 100),
           (''best-practices'', Fin 100), (''seo'', Fin 100)] \<and>
   THRESHOLDS ''performance'' = Number (Fin 90) \<and>
   \<not> js_ge NaN (Fin 90) \<and>
   score_step \<lparr>passed = True, results = [], printed = []\<rparr> (''performance'', NaN) =
     \<lparr>passed = True,
      results = [\<lparr>type' = ''score'', category = ''performance'', value' = NaN,
                  threshold = Number (Fin 90), status = ''passed''\<rparr>],
      printed = [(Log, ScoreLine False ''performance'' NaN (Number (Fin 90)))]\<rparr> \<and>
   passed (evaluate [(''performance'', NaN), (''accessibility'', Fin 100),
                     (''best-practices'', Fin 100), (''seo'', Fin 100)] example_metrics) \<and>
   fst (checkPerformance
          (example_world\<lparr>LIGHTHOUSE_REPORT := Some (Report example_lhr_without_score)\<rparr>)) = 0"
proof -
  let ?scs = "[(''performance'', NaN), (''accessibility'', Fin 100),
               (''best-practices'', Fin 100), (''seo'', Fin 100)]"
  have r: "Math_round (js_times (Fin 1) (Fin 100)) = Fin 100"
    unfolding times_100_one by code_simp
  have n: "Math_round (js_times NaN (Fin 100)) = NaN"
    by simp
  have e: "extract_scores example_lhr_without_score = Some ?scs"
    unfolding extract_scores_def example_lhr_without_score_def example_lhr_def
    by (simp add: r n del: js_times.simps Math_round.simps)
  have m: "extract_metrics example_lhr_without_score = Some example_metrics"
    by (simp add: extract_metrics_def example_lhr_without_score_def example_lhr_def
          example_metrics_def)
  have s: "score_step \<lparr>passed = True, results = [], printed = []\<rparr> (''performance'', NaN) =
     \<lparr>passed = True,
      results = [\<lparr>type' = ''score'', category = ''performance'', value' = NaN,
                  threshold = Number (Fin 90), status = ''passed''\<rparr>],
      printed = [(Log, ScoreLine False ''performance'' NaN (Number (Fin 90)))]\<rparr>"
    by (simp add: score_step_def Let_def print_def push_def THRESHOLDS_scores js_ge_def)
  have p: "passed (evaluate ?scs example_metrics)"
    by (simp add: passed_evaluate example_metrics_def THRESHOLDS_scores THRESHOLDS_metrics
          js_gt_def)
  have x: "fst (checkPerformance
          (example_world\<lparr>LIGHTHOUSE_REPORT := Some (Report example_lhr_without_score)\<rparr>)) = 0"
    using p by (simp add: exit_status e m) (simp add: example_world_def)
  show ?thesis
    by (intro conjI e THRESHOLDS_scores(1) s p x) (simp add: js_ge_def)
qed

text \<open>
  C3. The claim says that the recorded outcome of a metric is passed if and only if
  \<open>v <= t\<close>. The callback decides the record by \<^verbatim>\<open>value > threshold\<close> (line 101), which is
  not the negation of the condition \<^verbatim>\<open>value <= threshold\<close> it prints the mark by (line 95)
  when the value is NaN. In the example report with a first contentful paint without a
  numeric value, \<open>v <= t\<close> is false; the callback prints the line with the mark of a
  failure and pushes a record that is passed; every other check passes, and the run exits
  with status 0.
\<close>

theorem metric_without_number_is_recorded_passed:
  "extract_metrics example_lhr_without_value =
     Some [(''first-contentful-paint'', NaN), (''largest-contentful-paint'', Fin 50),
           (''first-input-delay'', Fin 50), (''cumulative-layout-shift'', Fin 0),
           (''speed-index'', Fin 50), (''interactive'', Fin 50)] \<and>
   THRESHOLDS ''first-contentful-paint'' = Number (Fin 1800) \<and>
   \<not> js_le NaN (Fin 1800) \<and>
   metric_step \<lparr>passed = True, results = [], printed = []\<rparr> (''first-contentful-paint'', NaN) =
     \<lparr>passed = True,
      results = [\<lparr>type' = ''metric'', category = ''first-contentful-paint'', value' = NaN,
                  threshold = Number (Fin 1800), status = ''passed''\<rparr>],
      printed = [(Log, MetricLine False ''first-contentful-paint'' NaN ''ms''
                         (Number (Fin 1800)))]\<rparr> \<and>
   passed (evaluate example_scores
             [(''first-contentful-paint'', NaN), (''largest-contentful-paint'', Fin 50),
              (''first-input-delay'', Fin 50), (''cumulative-layout-shift'', Fin 0),
              (''speed-index'', Fin 50), (''interactive'', Fin 50)]) \<and>
   fst (checkPerformance
          (example_world\<lparr>LIGHTHOUSE_REPORT := Some (Report example_lhr_without_value)\<rparr>)) = 0"
proof -
  let ?mts = "[(''first-contentful-paint'', NaN), (''largest-contentful-paint'', Fin 50),
               (''first-input-delay'', Fin 50), (''cumulative-layout-shift'', Fin 0),
               (''speed-index'', Fin 50), (''interactive'', Fin 50)]"
  have r: "Math_round (js_times (Fin 1) (Fin 100)) = Fin 100"
    unfolding times_100_one by code_simp
  have e: "extract_scores example_lhr_without_value = Some example_scores"
    unfolding extract_scores_def example_lhr_without_value_def example_lhr_def
      example_scores_def
    by (simp add: r del: js_times.simps Math_round.simps)
  have m: "extract_metrics example_lhr_without_value = Some ?mts"
    by (simp add: extract_metrics_def example_lhr_without_value_def example_lhr_def)
  have s: "metric_step \<lparr>passed = True, results = [], printed = []\<rparr>
             (''first-contentful-paint'', NaN) =
     \<lparr>passed = True,
      results = [\<lparr>type' = ''metric'', category = ''first-contentful-paint'', value' = NaN,
                  threshold = Number (Fin 1800), status = ''passed''\<rparr>],
      printed = [(Log, MetricLine False ''first-contentful-paint'' NaN ''ms''
                         (Number (Fin 1800)))]\<rparr>"
    by (simp add: metric_step_def Let_def print_def push_def THRESHOLDS_metrics js_le_def
          js_gt_def)
  have p: "passed (evaluate example_scores ?mts)"
    by (simp add: passed_evaluate example_scores_def THRESHOLDS_scores THRESHOLDS_metrics
          js_gt_def)
  have x: "fst (checkPerformance
          (example_world\<lparr>LIGHTHOUSE_REPORT := Some (Report example_lhr_without_value)\<rparr>)) = 0"
    using p by (simp add: exit_status e m) (simp add: example_world_def)
  show ?thesis
    by (intro conjI m THRESHOLDS_metrics(1) s p x) (simp add: js_le_def)
qed

end
